theory Spec2Isabelle
  imports Main
begin

section \<open>Values, exceptions and effects\<close>

text \<open>
  The repository is a set of Node.js scripts that send push notifications through the
  Expo push service and keep a Supabase data store up to date. Every function of interest
  is an \<^verbatim>\<open>async\<close> function that awaits external calls one after another, so a
  call is modelled as a sequential computation that
  \<^item> leaves a log of the external calls it made (the \<open>event\<close> list), and
  \<^item> either returns a value (\<open>Inr\<close>) or throws (\<open>Inl\<close>).
  Console output is not modelled. JavaScript numbers that count list elements are
  modelled as \<open>nat\<close>.
\<close>

text \<open>A thrown value is an \<^verbatim>\<open>Error\<close> object; the model keeps its \<^verbatim>\<open>message\<close>.\<close>

datatype exn = Error string

type_synonym 'a js = "exn + 'a"

text \<open>A push ticket, as the Expo service returns it: \<^verbatim>\<open>{status, message, details: {error}}\<close>.
  The field \<open>details\<close> is \<open>None\<close> when the ticket has no \<^verbatim>\<open>details\<close> object; the
  inner option is \<^verbatim>\<open>details.error\<close>.\<close>

datatype ticket_status = ok | error

record ticket =
  status :: ticket_status
  message :: string
  details :: "string option option"

text \<open>A notification message object as the three senders build it. \<open>badge\<close> and
  \<open>channelId\<close> are absent (\<open>None\<close>) in the messages of \<^verbatim>\<open>sendPushNotifications\<close>.\<close>

record notification =
  to :: string
  sound :: string
  title :: string
  body :: string
  data :: "(string \<times> string) list"
  priority :: string
  badge :: "nat option"
  channelId :: "string option"

text \<open>The result object of a Supabase query, \<^verbatim>\<open>{data, error}\<close>.\<close>

datatype pg_error = PostgrestError string

record 'a response =
  resp_data :: "'a option"
  resp_error :: "pg_error option"

text \<open>A row of the \<^verbatim>\<open>notifications\<close> table as \<^verbatim>\<open>logNotifications\<close> and
  \<^verbatim>\<open>logInvitationNotification\<close> insert it.\<close>

record notification_record =
  n_user_id :: string
  n_type :: string
  n_title :: string
  n_message :: string
  n_data :: "(string \<times> string) list"
  n_status :: string

text \<open>The external calls a run can make: a batch handed to
  \<^verbatim>\<open>expo.sendPushNotificationsAsync\<close>, an insert into \<^verbatim>\<open>notifications\<close>, the
  \<^verbatim>\<open>mark_reminder_sent\<close> procedure, the update that sets a user's \<^verbatim>\<open>push_token\<close> to
  null, and the two read queries.\<close>

datatype event =
    Submit "notification list"
  | InsertNotifications "notification_record list"
  | MarkReminderSent string
  | ClearPushToken string
  | SelectUserProfile string
  | GetMatchParticipants string

type_synonym 'a io = "event list \<times> 'a js"

definition return :: "'a \<Rightarrow> 'a io" where
  "return x = ([], Inr x)"

definition throw :: "exn \<Rightarrow> 'a io" where
  "throw e = ([], Inl e)"

definition call :: "event \<Rightarrow> 'a js \<Rightarrow> 'a io" where
  "call ev outcome = ([ev], outcome)"

definition bind_io :: "'a io \<Rightarrow> ('a \<Rightarrow> 'b io) \<Rightarrow> 'b io" where
  "bind_io m f =
     (case m of
        (es, Inl e) \<Rightarrow> (es, Inl e)
      | (es, Inr x) \<Rightarrow> (case f x of (es', r) \<Rightarrow> (es @ es', r)))"

definition try_catch :: "'a io \<Rightarrow> (exn \<Rightarrow> 'a io) \<Rightarrow> 'a io" where
  "try_catch m h =
     (case m of
        (es, Inl e) \<Rightarrow> (case h e of (es', r) \<Rightarrow> (es @ es', r))
      | (es, Inr x) \<Rightarrow> (es, Inr x))"

text \<open>\<^verbatim>\<open>xs[i]\<close> in JavaScript: \<^verbatim>\<open>undefined\<close> (here \<open>None\<close>) out of range.\<close>

definition js_index :: "'a list \<Rightarrow> nat \<Rightarrow> 'a option" where
  "js_index xs i = (if i < length xs then Some (xs ! i) else None)"

section \<open>The Expo client\<close>

text \<open>
  The Expo SDK is a dependency of the repository and not part of its source. The senders
  use three of its operations. Two are parameters of the model: the token predicate
  \<^verbatim>\<open>Expo.isExpoPushToken\<close> and the transport \<^verbatim>\<open>expo.sendPushNotificationsAsync\<close>, which
  for the \<open>k\<close>-th batch of a run either throws or returns a list of tickets. The third,
  \<^verbatim>\<open>expo.chunkPushNotifications\<close>, is modelled below with the chunk size as a parameter.
\<close>

record expo =
  isExpoPushToken :: "string \<Rightarrow> bool"
  chunkSizeLimit :: nat
  sendPushNotificationsAsync :: "nat \<Rightarrow> notification list \<Rightarrow> ticket list js"

text \<open>
  Modelled from the spec: \<^verbatim>\<open>expo.chunkPushNotifications\<close> (expo-server-sdk, not under
  src/). The spec's partitioning step: split the ordered list into contiguous batches no
  larger than the provider's maximum chunk size, preserving order. The loop fills the
  current chunk and closes it when it reaches the limit; a last, partly filled chunk is
  closed at the end.
\<close>

fun chunk_loop :: "nat \<Rightarrow> 'a list \<Rightarrow> 'a list \<Rightarrow> 'a list list" where
  "chunk_loop lim chunk [] = (if chunk = [] then [] else [chunk])"
| "chunk_loop lim chunk (m # ms) =
     (if lim \<le> length (chunk @ [m]) then (chunk @ [m]) # chunk_loop lim [] ms
      else chunk_loop lim (chunk @ [m]) ms)"

text \<open>Modelled from the spec: \<^verbatim>\<open>expo.chunkPushNotifications(messages)\<close> itself (not under
  src/), the loop above started with an empty chunk; \<open>lim\<close> is the provider's maximum
  chunk size.\<close>

definition chunkPushNotifications :: "nat \<Rightarrow> 'a list \<Rightarrow> 'a list list" where
  "chunkPushNotifications lim messages = chunk_loop lim [] messages"

section \<open>pushNotificationSender.js\<close>

text \<open>The first loop of \<^verbatim>\<open>sendPushNotifications\<close>: a token that is not an Expo push
  token is skipped (\<^verbatim>\<open>continue\<close>), every other token gets a message.\<close>

fun build_messages ::
  "(string \<Rightarrow> bool) \<Rightarrow> string list \<Rightarrow> string \<Rightarrow> string \<Rightarrow> (string \<times> string) list
     \<Rightarrow> notification list" where
  "build_messages valid [] ttl bdy dat = []"
| "build_messages valid (pushToken # tokens) ttl bdy dat =
     (if \<not> valid pushToken then build_messages valid tokens ttl bdy dat
      else \<lparr>to = pushToken, sound = ''notification_sound.wav'', title = ttl, body = bdy,
             data = dat, priority = ''high'', badge = None, channelId = None\<rparr>
           # build_messages valid tokens ttl bdy dat)"

text \<open>The second loop: each chunk is submitted inside its own \<^verbatim>\<open>try\<close>; the tickets of
  a chunk that returns are appended to \<open>tickets\<close>, a chunk that throws is only logged.
  \<open>k\<close> counts the submissions made so far.\<close>

fun send_chunks ::
  "(nat \<Rightarrow> notification list \<Rightarrow> ticket list js) \<Rightarrow> nat \<Rightarrow> notification list list
     \<Rightarrow> ticket list \<Rightarrow> ticket list io" where
  "send_chunks tr k [] tickets = return tickets"
| "send_chunks tr k (chunk # chunks) tickets =
     bind_io
       (try_catch
          (bind_io (call (Submit chunk) (tr k chunk))
             (\<lambda>ticketChunk. return (tickets @ ticketChunk)))
          (\<lambda>error. return tickets))
       (\<lambda>tickets'. send_chunks tr (Suc k) chunks tickets')"

text \<open>The counting pass, \<^verbatim>\<open>tickets.forEach((ticket, index) => ...)\<close>, over the three
  local variables \<^verbatim>\<open>successCount\<close>, \<^verbatim>\<open>failureCount\<close> and \<^verbatim>\<open>invalidTokens\<close> (here
  \<open>invalidTokens_acc\<close>, the result's field keeps the name). \<open>index\<close> is the position of
  the ticket in the flat ticket list, and the source reads \<^verbatim>\<open>tokens[index]\<close> from the
  \<^emph>\<open>input\<close> list \<open>tokens\<close>.\<close>

record counts =
  successCount :: nat
  failureCount :: nat
  invalidTokens_acc :: "string option list"

fun count_tickets :: "string list \<Rightarrow> nat \<Rightarrow> ticket list \<Rightarrow> counts \<Rightarrow> counts" where
  "count_tickets tokens index [] c = c"
| "count_tickets tokens index (ticket # rest) c =
     count_tickets tokens (Suc index) rest
       (if status ticket = ok then c\<lparr>successCount := successCount c + 1\<rparr>
        else if details ticket = Some (Some ''DeviceNotRegistered'')
        then c\<lparr>failureCount := failureCount c + 1,
               invalidTokens_acc := invalidTokens_acc c @ [js_index tokens index]\<rparr>
        else c\<lparr>failureCount := failureCount c + 1\<rparr>)"

record send_result =
  success :: nat
  failed :: nat
  total :: nat
  invalidTokens :: "string option list"
  tickets :: "ticket list"

definition sendPushNotifications ::
  "expo \<Rightarrow> string list \<Rightarrow> string \<Rightarrow> string \<Rightarrow> (string \<times> string) list \<Rightarrow> send_result io" where
  "sendPushNotifications ex tokens ttl bdy dat =
     (let messages = build_messages (isExpoPushToken ex) tokens ttl bdy dat;
          chunks = chunkPushNotifications (chunkSizeLimit ex) messages
      in bind_io (send_chunks (sendPushNotificationsAsync ex) 0 chunks [])
           (\<lambda>tickets.
              let c = count_tickets tokens 0 tickets
                        \<lparr>successCount = 0, failureCount = 0, invalidTokens_acc = []\<rparr>
              in return \<lparr>success = successCount c, failed = failureCount c,
                         total = length tokens, invalidTokens = invalidTokens_acc c,
                         tickets = tickets\<rparr>))"

section \<open>The Supabase client and the runtime\<close>

text \<open>
  The data store is a parameter too: for each call the senders make, the record says what
  the call yields, a thrown exception or a \<^verbatim>\<open>{data, error}\<close> object. The number given to
  \<open>select_user_profile\<close> tells the first query of a run from the second, so that the two
  may answer differently for the same user id.
\<close>

record participant =
  user_id :: string
  push_token :: "string option"
  email :: string

record user_profile =
  profile_id :: string
  profile_push_token :: "string option"
  full_name :: "string option"
  profile_email :: "string option"

record supabase =
  get_match_participants :: "string \<Rightarrow> participant list response js"
  mark_reminder_sent :: "string \<Rightarrow> unit response js"
  insert_notifications :: "notification_record list \<Rightarrow> unit response js"
  update_push_token_null :: "string \<Rightarrow> unit response js"
  select_user_profile :: "nat \<Rightarrow> string \<Rightarrow> user_profile response js"

text \<open>What the senders take from the JavaScript runtime: the clock
  (\<^verbatim>\<open>new Date().toISOString()\<close>, the \<open>k\<close>-th reading of a run) and the locale formatting
  of a date and a time, which \<^verbatim>\<open>formatMatchTime\<close> and \<^verbatim>\<open>formatDateTime\<close> wrap in a
  \<^verbatim>\<open>try\<close> of their own.\<close>

record runtime =
  now :: "nat \<Rightarrow> string"
  formatMatchTime :: "string \<Rightarrow> string \<Rightarrow> string"
  formatDateTime :: "string \<Rightarrow> string \<Rightarrow> string"

text \<open>The soccer-ball sign U+26BD that starts both titles, as its three UTF-8 bytes.\<close>

definition soccer_ball :: string where
  "soccer_ball = [CHR 0xE2, CHR 0x9A, CHR 0xBD]"

section \<open>matchReminderSender.js\<close>

record match =
  booking_id :: string
  pitch_name :: string
  match_date :: string
  match_time :: string
  match_type :: string

definition markReminderSent :: "supabase \<Rightarrow> string \<Rightarrow> unit io" where
  "markReminderSent db bookingId =
     try_catch
       (bind_io (call (MarkReminderSent bookingId) (mark_reminder_sent db bookingId))
          (\<lambda>res. return ()))
       (\<lambda>error. return ())"

definition removeInvalidToken :: "supabase \<Rightarrow> string \<Rightarrow> unit io" where
  "removeInvalidToken db userId =
     try_catch
       (bind_io (call (ClearPushToken userId) (update_push_token_null db userId))
          (\<lambda>res. return ()))
       (\<lambda>error. return ())"

definition notificationRecords ::
  "runtime \<Rightarrow> participant list \<Rightarrow> string \<Rightarrow> string \<Rightarrow> string \<Rightarrow> notification_record list" where
  "notificationRecords rt participants bookingId ttl msg =
     map (\<lambda>(k, participant).
            \<lparr>n_user_id = user_id participant, n_type = ''match_reminder'', n_title = ttl,
             n_message = msg,
             n_data = [(''booking_id'', bookingId), (''reminder_type'', ''2_hour_reminder''),
                       (''sent_at'', now rt k)],
             n_status = ''sent''\<rparr>)
         (enumerate 0 participants)"

definition logNotifications ::
  "supabase \<Rightarrow> runtime \<Rightarrow> participant list \<Rightarrow> string \<Rightarrow> string \<Rightarrow> string \<Rightarrow> unit io" where
  "logNotifications db rt participants bookingId ttl msg =
     try_catch
       (bind_io
          (call (InsertNotifications (notificationRecords rt participants bookingId ttl msg))
             (insert_notifications db (notificationRecords rt participants bookingId ttl msg)))
          (\<lambda>res. return ()))
       (\<lambda>error. return ())"

text \<open>\<^verbatim>\<open>processTickets\<close>: \<open>i\<close> runs over the tickets; \<^verbatim>\<open>participants[i]\<close> is
  \<^verbatim>\<open>undefined\<close> past the end of \<open>participants\<close>, and both branches then read a property of
  it, which throws a TypeError.\<close>

fun processTickets :: "supabase \<Rightarrow> nat \<Rightarrow> ticket list \<Rightarrow> participant list \<Rightarrow> unit io" where
  "processTickets db i [] participants = return ()"
| "processTickets db i (ticket # rest) participants =
     (case js_index participants i of
        None \<Rightarrow> throw (Error ''TypeError: participant is undefined'')
      | Some participant \<Rightarrow>
          bind_io
            (if status ticket = error
             then (if details ticket = Some (Some ''DeviceNotRegistered'')
                   then removeInvalidToken db (user_id participant)
                   else return ())
             else return ())
            (\<lambda>u. processTickets db (Suc i) rest participants))"

text \<open>The filter \<^verbatim>\<open>p.push_token && Expo.isExpoPushToken(p.push_token)\<close>: null and the
  empty string are falsy.\<close>

definition has_valid_token :: "(string \<Rightarrow> bool) \<Rightarrow> participant \<Rightarrow> bool" where
  "has_valid_token valid p =
     (case push_token p of None \<Rightarrow> False | Some t \<Rightarrow> t \<noteq> [] \<and> valid t)"

text \<open>The token of a participant that passed the filter (\<open>[]\<close> stands for null, which the
  filter has excluded).\<close>

definition token_string :: "participant \<Rightarrow> string" where
  "token_string p = (case push_token p of None \<Rightarrow> [] | Some t \<Rightarrow> t)"

definition reminderTitle :: "match \<Rightarrow> string" where
  "reminderTitle m =
     soccer_ball @ '' '' @
     (if match_type m = ''ranked'' then ''Ranked Match'' else ''Friendly Match'') @ '' Reminder''"

definition reminderMessage :: "runtime \<Rightarrow> match \<Rightarrow> string" where
  "reminderMessage rt m =
     ''Your match at '' @ pitch_name m @ '' starts in 2 hours ('' @
     formatMatchTime rt (match_date m) (match_time m) @ ''). Get ready!''"

definition reminderMessages :: "runtime \<Rightarrow> match \<Rightarrow> participant list \<Rightarrow> notification list" where
  "reminderMessages rt m validParticipants =
     map (\<lambda>participant.
            \<lparr>to = token_string participant, sound = ''notification_sound.wav'',
             title = reminderTitle m, body = reminderMessage rt m,
             data = [(''screen'', ''GameDetails''), (''gameId'', booking_id m),
                     (''matchType'', match_type m), (''pitchName'', pitch_name m),
                     (''matchTime'', formatMatchTime rt (match_date m) (match_time m)),
                     (''notificationType'', ''match_reminder'')],
             priority = ''high'', badge = Some 1, channelId = Some ''NL''\<rparr>)
         validParticipants"

text \<open>\<^verbatim>\<open>processMatchReminder\<close>. Its chunk loop is the loop of
  \<^verbatim>\<open>sendPushNotifications\<close> again, so \<open>send_chunks\<close> stands for both.\<close>

definition processMatchReminder :: "expo \<Rightarrow> supabase \<Rightarrow> runtime \<Rightarrow> match \<Rightarrow> unit io" where
  "processMatchReminder ex db rt m =
     try_catch
       (bind_io
          (call (GetMatchParticipants (booking_id m)) (get_match_participants db (booking_id m)))
          (\<lambda>res.
             case resp_error res of
               Some participantsError \<Rightarrow> return ()
             | None \<Rightarrow>
                 (case resp_data res of
                    None \<Rightarrow> markReminderSent db (booking_id m)
                  | Some participants \<Rightarrow>
                      if length participants = 0 then markReminderSent db (booking_id m)
                      else
                        let validParticipants =
                              filter (has_valid_token (isExpoPushToken ex)) participants
                        in if length validParticipants = 0
                           then markReminderSent db (booking_id m)
                           else
                             bind_io
                               (send_chunks (sendPushNotificationsAsync ex) 0
                                  (chunkPushNotifications (chunkSizeLimit ex)
                                     (reminderMessages rt m validParticipants)) [])
                               (\<lambda>tickets.
                                  bind_io
                                    (logNotifications db rt validParticipants (booking_id m)
                                       (reminderTitle m) (reminderMessage rt m))
                                    (\<lambda>u. bind_io (markReminderSent db (booking_id m))
                                       (\<lambda>u. processTickets db 0 tickets validParticipants))))))
       (\<lambda>error. return ())"

section \<open>gameInvitationSender.js\<close>

record invitation =
  targetUserId :: string
  inviterUserId :: string
  gameId :: string
  gameTitle :: string
  gameDate :: string
  gameTime :: string
  pitchName :: string
  pitchLocation :: string

text \<open>The object \<^verbatim>\<open>sendGameInvitationNotification\<close> returns: \<^verbatim>\<open>{success: true}\<close> has no
  \<^verbatim>\<open>error\<close> field (\<open>None\<close>).\<close>

record invitation_result =
  inv_success :: bool
  inv_error :: "string option"

text \<open>\<^verbatim>\<open>a || b || 'Someone'\<close> on strings that may be null: the first one that is neither
  null nor empty.\<close>

fun first_truthy :: "string option list \<Rightarrow> string \<Rightarrow> string" where
  "first_truthy [] d = d"
| "first_truthy (None # vs) d = first_truthy vs d"
| "first_truthy (Some v # vs) d = (if v = [] then first_truthy vs d else v)"

definition invitationTitle :: string where
  "invitationTitle = soccer_ball @ '' Game Invitation''"

definition invitationMessage :: "runtime \<Rightarrow> invitation \<Rightarrow> user_profile \<Rightarrow> string" where
  "invitationMessage rt invitationData inviterUser =
     first_truthy [full_name inviterUser, profile_email inviterUser] ''Someone'' @
     '' invited you to join a match at '' @ pitchName invitationData @ '' on '' @
     formatDateTime rt (gameDate invitationData) (gameTime invitationData)"

definition notificationMessage ::
  "runtime \<Rightarrow> invitation \<Rightarrow> string \<Rightarrow> user_profile \<Rightarrow> notification" where
  "notificationMessage rt invitationData token inviterUser =
     \<lparr>to = token, sound = ''notification_sound.wav'', title = invitationTitle,
      body = invitationMessage rt invitationData inviterUser,
      data = [(''screen'', ''GameDetails''), (''gameId'', gameId invitationData),
              (''type'', ''game_invitation''), (''pitchName'', pitchName invitationData),
              (''gameDate'', gameDate invitationData), (''gameTime'', gameTime invitationData),
              (''inviterName'',
                 first_truthy [full_name inviterUser, profile_email inviterUser] ''Someone''),
              (''notificationType'', ''game_invitation'')],
      priority = ''high'', badge = Some 1, channelId = Some ''NL''\<rparr>"

definition logInvitationNotification ::
  "supabase \<Rightarrow> runtime \<Rightarrow> string \<Rightarrow> string \<Rightarrow> string \<Rightarrow> string \<Rightarrow> string \<Rightarrow> unit io" where
  "logInvitationNotification db rt userId gId ttl msg inviterId =
     try_catch
       (bind_io
          (call (InsertNotifications
                   [\<lparr>n_user_id = userId, n_type = ''game_invitation'', n_title = ttl,
                     n_message = msg,
                     n_data = [(''game_id'', gId), (''invited_by'', inviterId),
                               (''sent_at'', now rt 0), (''notification_type'', ''push'')],
                     n_status = ''sent''\<rparr>])
             (insert_notifications db
                   [\<lparr>n_user_id = userId, n_type = ''game_invitation'', n_title = ttl,
                     n_message = msg,
                     n_data = [(''game_id'', gId), (''invited_by'', inviterId),
                               (''sent_at'', now rt 0), (''notification_type'', ''push'')],
                     n_status = ''sent''\<rparr>]))
          (\<lambda>res. return ()))
       (\<lambda>error. return ())"

definition failure :: "string \<Rightarrow> invitation_result io" where
  "failure msg = return \<lparr>inv_success = False, inv_error = Some msg\<rparr>"

text \<open>After the submission: \<^verbatim>\<open>tickets[0]\<close> is read (\<open>ticketList\<close> is the source's
  \<^verbatim>\<open>tickets\<close>), the notification is logged, and only
  then \<^verbatim>\<open>ticket.status\<close> is looked at, which throws when the ticket list was empty.\<close>

definition after_submission ::
  "supabase \<Rightarrow> runtime \<Rightarrow> invitation \<Rightarrow> user_profile \<Rightarrow> ticket list \<Rightarrow> invitation_result io" where
  "after_submission db rt invitationData inviterUser ticketList =
     bind_io
       (logInvitationNotification db rt (targetUserId invitationData)
          (gameId invitationData) invitationTitle
          (invitationMessage rt invitationData inviterUser) (inviterUserId invitationData))
       (\<lambda>u. case js_index ticketList 0 of
               None \<Rightarrow> throw (Error ''TypeError: ticket is undefined'')
             | Some ticket \<Rightarrow>
                 if status ticket = error
                 then bind_io
                        (if details ticket = Some (Some ''DeviceNotRegistered'')
                         then removeInvalidToken db (targetUserId invitationData)
                         else return ())
                        (\<lambda>u. failure (message ticket))
                 else return \<lparr>inv_success = True, inv_error = None\<rparr>)"

definition sendGameInvitationNotification ::
  "expo \<Rightarrow> supabase \<Rightarrow> runtime \<Rightarrow> invitation \<Rightarrow> invitation_result io" where
  "sendGameInvitationNotification ex db rt invitationData =
     try_catch
       (bind_io
          (call (SelectUserProfile (targetUserId invitationData))
             (select_user_profile db 0 (targetUserId invitationData)))
          (\<lambda>res.
             case resp_error res of
               Some userError \<Rightarrow> failure ''User not found''
             | None \<Rightarrow>
                 (case resp_data res of
                    None \<Rightarrow> failure ''User not found''
                  | Some targetUser \<Rightarrow>
                      (case profile_push_token targetUser of
                         None \<Rightarrow> failure ''No push token''
                       | Some token \<Rightarrow>
                           if token = [] then failure ''No push token''
                           else if \<not> isExpoPushToken ex token then failure ''Invalid push token''
                           else
                             bind_io
                               (call (SelectUserProfile (inviterUserId invitationData))
                                  (select_user_profile db 1 (inviterUserId invitationData)))
                               (\<lambda>res'.
                                  case resp_error res' of
                                    Some inviterError \<Rightarrow> failure ''Inviter not found''
                                  | None \<Rightarrow>
                                      (case resp_data res' of
                                         None \<Rightarrow> failure ''Inviter not found''
                                       | Some inviterUser \<Rightarrow>
                                           bind_io
                                             (call
                                                (Submit [notificationMessage rt invitationData
                                                           token inviterUser])
                                                (sendPushNotificationsAsync ex 0
                                                   [notificationMessage rt invitationData
                                                      token inviterUser]))
                                             (after_submission db rt invitationData
                                                inviterUser)))))))
       (\<lambda>error. case error of Error msg \<Rightarrow> failure msg)"

section \<open>Notions used in the statements\<close>

text \<open>The batches a call of \<^verbatim>\<open>sendPushNotifications\<close> submits: the source's \<^verbatim>\<open>chunks\<close>.\<close>

definition batches ::
  "expo \<Rightarrow> string list \<Rightarrow> string \<Rightarrow> string \<Rightarrow> (string \<times> string) list
     \<Rightarrow> notification list list" where
  "batches ex tokens ttl bdy dat =
     chunkPushNotifications (chunkSizeLimit ex)
       (build_messages (isExpoPushToken ex) tokens ttl bdy dat)"

text \<open>The tickets of the batches whose submission returned, in batch order; the \<open>k\<close>-th
  submission of the run is the first batch of the list.\<close>

definition answers ::
  "(nat \<Rightarrow> notification list \<Rightarrow> ticket list js) \<Rightarrow> nat \<Rightarrow> notification list list
     \<Rightarrow> ticket list" where
  "answers tr k chunks =
     concat (map (\<lambda>(i, chunk). case tr i chunk of Inl e \<Rightarrow> [] | Inr ts \<Rightarrow> ts)
               (enumerate k chunks))"

text \<open>The batches whose submission threw.\<close>

definition raised_chunks ::
  "(nat \<Rightarrow> notification list \<Rightarrow> ticket list js) \<Rightarrow> nat \<Rightarrow> notification list list
     \<Rightarrow> notification list list" where
  "raised_chunks tr k chunks =
     map snd (filter (\<lambda>(i, chunk). case tr i chunk of Inl e \<Rightarrow> True | Inr ts \<Rightarrow> False)
                (enumerate k chunks))"

text \<open>The transport's contract on the batches of a run: a submission that returns has one
  ticket for each message of its batch.\<close>

fun one_ticket_per_message ::
  "(nat \<Rightarrow> notification list \<Rightarrow> ticket list js) \<Rightarrow> nat \<Rightarrow> notification list list \<Rightarrow> bool" where
  "one_ticket_per_message tr k [] = True"
| "one_ticket_per_message tr k (chunk # chunks) =
     ((case tr k chunk of Inl e \<Rightarrow> True | Inr ts \<Rightarrow> length ts = length chunk)
      \<and> one_ticket_per_message tr (Suc k) chunks)"

text \<open>Every submission of the run returned, with one ticket for each message of its
  batch.\<close>

fun every_batch_answered ::
  "(nat \<Rightarrow> notification list \<Rightarrow> ticket list js) \<Rightarrow> nat \<Rightarrow> notification list list \<Rightarrow> bool" where
  "every_batch_answered tr k [] = True"
| "every_batch_answered tr k (chunk # chunks) =
     ((case tr k chunk of Inl e \<Rightarrow> False | Inr ts \<Rightarrow> length ts = length chunk)
      \<and> every_batch_answered tr (Suc k) chunks)"

text \<open>A store query succeeded: it did not throw, reported no error and carried a row.\<close>

definition lookup_succeeds :: "'a response js \<Rightarrow> 'a option" where
  "lookup_succeeds q =
     (case q of
        Inl e \<Rightarrow> None
      | Inr res \<Rightarrow> (case resp_error res of Some e \<Rightarrow> None | None \<Rightarrow> resp_data res))"

text \<open>The push token of a profile, when it has one that the token predicate accepts.\<close>

definition valid_push_token :: "expo \<Rightarrow> user_profile \<Rightarrow> string option" where
  "valid_push_token ex u =
     (case profile_push_token u of
        None \<Rightarrow> None
      | Some t \<Rightarrow> if t \<noteq> [] \<and> isExpoPushToken ex t then Some t else None)"

text \<open>The transport returned, and the first ticket's status is not \<open>error\<close>.\<close>

definition first_ticket_fine :: "ticket list js \<Rightarrow> bool" where
  "first_ticket_fine r =
     (case r of
        Inl e \<Rightarrow> False
      | Inr ts \<Rightarrow> (case ts of [] \<Rightarrow> False | ticket # rest \<Rightarrow> status ticket \<noteq> error))"

definition invitation_goes_through :: "expo \<Rightarrow> supabase \<Rightarrow> runtime \<Rightarrow> invitation \<Rightarrow> bool" where
  "invitation_goes_through ex db rt invitationData =
     (case lookup_succeeds (select_user_profile db 0 (targetUserId invitationData)) of
        None \<Rightarrow> False
      | Some targetUser \<Rightarrow>
          (case valid_push_token ex targetUser of
             None \<Rightarrow> False
           | Some token \<Rightarrow>
               (case lookup_succeeds (select_user_profile db 1 (inviterUserId invitationData)) of
                  None \<Rightarrow> False
                | Some inviterUser \<Rightarrow>
                    first_ticket_fine
                      (sendPushNotificationsAsync ex 0
                         [notificationMessage rt invitationData token inviterUser]))))"

section \<open>Sample clients and data\<close>

text \<open>
  Modelled from the spec: the provider's token grammar (\<^verbatim>\<open>Expo.isExpoPushToken\<close> of
  expo-server-sdk, not under src/), of which the spec says only that a well-formed address
  matches it. The sample predicate accepts the form the repository's usage text shows,
  \<^verbatim>\<open>ExponentPushToken[...]\<close>. It instantiates the parameter in the concrete runs below;
  every general statement holds for any predicate.
\<close>

definition expoPushTokenShape :: "string \<Rightarrow> bool" where
  "expoPushTokenShape t =
     (take 18 t = ''ExponentPushToken['' \<and> t \<noteq> [] \<and> last t = CHR '']'')"

text \<open>A client whose transport answers the \<open>k\<close>-th submission with the \<open>k\<close>-th entry of a
  script, and throws a network error once the script is used up.\<close>

definition scripted_expo :: "nat \<Rightarrow> ticket list js list \<Rightarrow> expo" where
  "scripted_expo lim replies =
     \<lparr>isExpoPushToken = expoPushTokenShape, chunkSizeLimit = lim,
      sendPushNotificationsAsync =
        (\<lambda>k chunk. case js_index replies k of
                      None \<Rightarrow> Inl (Error ''network error'')
                    | Some r \<Rightarrow> r)\<rparr>"

definition ticket_ok :: ticket where
  "ticket_ok = \<lparr>status = ok, message = [], details = None\<rparr>"

definition ticket_error :: "string \<Rightarrow> ticket" where
  "ticket_error kind = \<lparr>status = error, message = kind, details = Some (Some kind)\<rparr>"

text \<open>The message \<^verbatim>\<open>sendPushNotifications(tokens, 'Hello', 'World', {})\<close> builds for a
  token.\<close>

definition hello :: "string \<Rightarrow> notification" where
  "hello t =
     \<lparr>to = t, sound = ''notification_sound.wav'', title = ''Hello'', body = ''World'',
      data = [], priority = ''high'', badge = None, channelId = None\<rparr>"

text \<open>A store that answers the participants query and the profile queries as given and
  accepts every write.\<close>

definition quiet_store ::
  "participant list response js \<Rightarrow> (nat \<Rightarrow> user_profile response js) \<Rightarrow> supabase" where
  "quiet_store participantsAnswer profileAnswer =
     \<lparr>get_match_participants = (\<lambda>bookingId. participantsAnswer),
      mark_reminder_sent = (\<lambda>bookingId. Inr \<lparr>resp_data = None, resp_error = None\<rparr>),
      insert_notifications = (\<lambda>rows. Inr \<lparr>resp_data = None, resp_error = None\<rparr>),
      update_push_token_null = (\<lambda>userId. Inr \<lparr>resp_data = None, resp_error = None\<rparr>),
      select_user_profile = (\<lambda>k userId. profileAnswer k)\<rparr>"

definition plain_runtime :: runtime where
  "plain_runtime =
     \<lparr>now = (\<lambda>k. ''2024-01-01T16:00:00.000Z''),
      formatMatchTime = (\<lambda>d t. d @ '' at '' @ t),
      formatDateTime = (\<lambda>d t. d @ '' at '' @ t)\<rparr>"

definition sample_match :: match where
  "sample_match =
     \<lparr>booking_id = ''b1'', pitch_name = ''Pitch 5'', match_date = ''2024-01-01'',
      match_time = ''18:00'', match_type = ''ranked''\<rparr>"

definition anna :: participant where
  "anna = \<lparr>user_id = ''u1'', push_token = Some ''ExponentPushToken[a]'',
            email = ''anna@example.org''\<rparr>"

definition ben :: participant where
  "ben = \<lparr>user_id = ''u2'', push_token = None, email = ''ben@example.org''\<rparr>"

definition sample_invitation :: invitation where
  "sample_invitation =
     \<lparr>targetUserId = ''u1'', inviterUserId = ''u2'', gameId = ''g1'',
      gameTitle = ''Test Football Match'', gameDate = ''2024-01-01'', gameTime = ''18:00'',
      pitchName = ''Test Pitch'', pitchLocation = ''Test Location''\<rparr>"

definition sample_profiles :: "nat \<Rightarrow> user_profile response js" where
  "sample_profiles k =
     (if k = 0
      then Inr \<lparr>resp_data = Some \<lparr>profile_id = ''u1'',
                                    profile_push_token = Some ''ExponentPushToken[a]'',
                                    full_name = Some ''Anna'',
                                    profile_email = Some ''anna@example.org''\<rparr>,
                resp_error = None\<rparr>
      else Inr \<lparr>resp_data = Some \<lparr>profile_id = ''u2'', profile_push_token = None,
                                    full_name = None,
                                    profile_email = Some ''ben@example.org''\<rparr>,
                resp_error = None\<rparr>)"

section \<open>Running the effects\<close>

lemma bind_io_Inr: "bind_io (es, Inr x) f = (es @ fst (f x), snd (f x))"
  by (simp add: bind_io_def split: prod.splits)

lemma bind_io_Inl: "bind_io (es, Inl e) f = (es, Inl e)"
  by (simp add: bind_io_def)

lemma try_catch_Inr: "try_catch (es, Inr x) h = (es, Inr x)"
  by (simp add: try_catch_def)

lemma try_catch_Inl: "try_catch (es, Inl e) h = (es @ fst (h e), snd (h e))"
  by (simp add: try_catch_def split: prod.splits)

lemmas io_simps =
  bind_io_Inr bind_io_Inl try_catch_Inr try_catch_Inl return_def throw_def call_def

lemma snd_bind_io: "snd m = Inr x \<Longrightarrow> snd (bind_io m f) = snd (f x)"
  by (cases m) (simp add: io_simps)

lemma snd_try_catch:
  "snd (try_catch m h) = (case snd m of Inl e \<Rightarrow> snd (h e) | Inr x \<Rightarrow> Inr x)"
  by (cases m) (simp add: io_simps split: sum.splits)

lemma snd_call_bind:
  "snd (bind_io (call ev outcome) f) = (case outcome of Inl e \<Rightarrow> Inl e | Inr x \<Rightarrow> snd (f x))"
  by (simp add: io_simps split: sum.splits)

section \<open>The chunk loop and the counting pass\<close>

lemma answers_Nil: "answers tr k [] = []"
  by (simp add: answers_def)

lemma answers_Cons:
  "answers tr k (c # cs) = (case tr k c of Inl e \<Rightarrow> [] | Inr ts \<Rightarrow> ts) @ answers tr (Suc k) cs"
  by (simp add: answers_def)

text \<open>Every chunk is submitted, whatever happened to the chunks before it, and the loop
  never throws.\<close>

lemma send_chunks_eq:
  "send_chunks tr k chunks acc = (map Submit chunks, Inr (acc @ answers tr k chunks))"
proof (induction chunks arbitrary: k acc)
  case Nil
  show ?case by (simp add: return_def answers_Nil)
next
  case (Cons c cs)
  show ?case
    by (cases "tr k c") (simp_all add: Cons.IH answers_Cons io_simps)
qed

lemma count_tickets_success:
  "successCount (count_tickets tokens i ts c)
     = successCount c + length (filter (\<lambda>t. status t = ok) ts)"
  by (induction ts arbitrary: i c) simp_all

lemma count_tickets_failure:
  "failureCount (count_tickets tokens i ts c)
     = failureCount c + length (filter (\<lambda>t. status t \<noteq> ok) ts)"
  by (induction ts arbitrary: i c) simp_all

lemma count_tickets_invalid:
  "invalidTokens_acc (count_tickets tokens i ts c) =
     invalidTokens_acc c @
       map (\<lambda>(j, t). js_index tokens j)
         (filter (\<lambda>(j, t). status t \<noteq> ok \<and> details t = Some (Some ''DeviceNotRegistered''))
            (enumerate i ts))"
  by (induction ts arbitrary: i c) simp_all

text \<open>The whole of \<^verbatim>\<open>sendPushNotifications\<close> in closed form. The last field but one shows
  how an invalid token is picked: by the position \<open>j\<close> of its ticket among the tickets
  received, read from the input list.\<close>

lemma sendPushNotifications_eq:
  "sendPushNotifications ex tokens ttl bdy dat =
     (map Submit (batches ex tokens ttl bdy dat),
      Inr \<lparr>success = length (filter (\<lambda>t. status t = ok)
                (answers (sendPushNotificationsAsync ex) 0 (batches ex tokens ttl bdy dat))),
           failed = length (filter (\<lambda>t. status t \<noteq> ok)
                (answers (sendPushNotificationsAsync ex) 0 (batches ex tokens ttl bdy dat))),
           total = length tokens,
           invalidTokens =
             map (\<lambda>(j, t). js_index tokens j)
               (filter (\<lambda>(j, t). status t \<noteq> ok
                                 \<and> details t = Some (Some ''DeviceNotRegistered''))
                  (enumerate 0
                     (answers (sendPushNotificationsAsync ex) 0
                        (batches ex tokens ttl bdy dat)))),
           tickets = answers (sendPushNotificationsAsync ex) 0
                       (batches ex tokens ttl bdy dat)\<rparr>)"
  by (simp add: sendPushNotifications_def batches_def send_chunks_eq io_simps Let_def
        count_tickets_success count_tickets_failure count_tickets_invalid)

lemma build_messages_to: "map to (build_messages valid tokens ttl bdy dat) = filter valid tokens"
  by (induction tokens) simp_all

lemma length_build_messages:
  "length (build_messages valid tokens ttl bdy dat) = length (filter valid tokens)"
  using build_messages_to [of valid tokens ttl bdy dat] by (metis length_map)

section \<open>Chunking\<close>

lemma chunk_loop_concat: "concat (chunk_loop lim chunk ms) = chunk @ ms"
  by (induction ms arbitrary: chunk) simp_all

lemma concat_chunkPushNotifications: "concat (chunkPushNotifications lim ms) = ms"
  by (simp add: chunkPushNotifications_def chunk_loop_concat)

lemma sum_length_batches:
  "sum_list (map length (batches ex tokens ttl bdy dat))
     = length (filter (isExpoPushToken ex) tokens)"
proof -
  have "sum_list (map length (batches ex tokens ttl bdy dat))
          = length (concat (batches ex tokens ttl bdy dat))"
    by (simp add: length_concat)
  then show ?thesis
    by (simp add: batches_def concat_chunkPushNotifications length_build_messages)
qed

lemma ceil_div:
  assumes "0 < (L::nat)"
  shows "(N + L - 1) div L = N div L + (if N mod L = 0 then 0 else 1)"
proof (cases "N mod L = 0")
  case True
  then have N: "N = L * (N div L)" by auto
  have "(N + L - 1) div L = N div L"
  proof (rule div_nat_eqI)
    show "L * (N div L) \<le> N + L - 1" using N assms by linarith
    show "N + L - 1 < L * Suc (N div L)" using N assms by simp
  qed
  with True show ?thesis by simp
next
  case False
  have r: "N mod L < L" using assms by simp
  have "(N + L - 1) div L = Suc (N div L)"
  proof (rule div_nat_eqI)
    have "L * (N div L) + L \<le> N + L - 1"
      using mult_div_mod_eq [of L N] False by linarith
    then show "L * Suc (N div L) \<le> N + L - 1" by simp
    have "N + L - 1 < L * (N div L) + L + L"
      using mult_div_mod_eq [of L N] r assms by linarith
    then show "N + L - 1 < L * Suc (Suc (N div L))" by simp
  qed
  with False show ?thesis by simp
qed

text \<open>The sizes of the chunks, with a chunk under construction: full chunks, then the
  remainder.\<close>

lemma chunk_loop_sizes:
  "length chunk < lim \<Longrightarrow>
   map length (chunk_loop lim chunk ms) =
     replicate ((length chunk + length ms) div lim) lim @
     (if (length chunk + length ms) mod lim = 0 then []
      else [(length chunk + length ms) mod lim])"
proof (induction ms arbitrary: chunk)
  case Nil
  then show ?case by simp
next
  case (Cons m ms)
  show ?case
  proof (cases "lim \<le> length (chunk @ [m])")
    case True
    with Cons.prems have eq: "Suc (length chunk) = lim" by simp
    have lim: "0 < lim" using Cons.prems by simp
    have "map length (chunk_loop lim chunk (m # ms)) = lim # map length (chunk_loop lim [] ms)"
      using True eq by simp
    also have "\<dots> = lim # (replicate (length ms div lim) lim @
        (if length ms mod lim = 0 then [] else [length ms mod lim]))"
      using Cons.IH [of "[]"] lim by simp
    also have "\<dots> = replicate ((length chunk + length (m # ms)) div lim) lim @
     (if (length chunk + length (m # ms)) mod lim = 0 then []
      else [(length chunk + length (m # ms)) mod lim])"
    proof -
      have a: "length chunk + length (m # ms) = lim + length ms" using eq by simp
      have b: "(lim + length ms) div lim = Suc (length ms div lim)"
        using lim div_add_self1 [of lim "length ms"] by simp
      have c: "(lim + length ms) mod lim = length ms mod lim" by simp
      show ?thesis unfolding a b c by simp
    qed
    finally show ?thesis .
  next
    case False
    then have "length (chunk @ [m]) < lim" by simp
    from Cons.IH [OF this] False show ?thesis by simp
  qed
qed

lemma chunk_sizes:
  assumes "0 < lim"
  shows "map length (chunkPushNotifications lim ms) =
     replicate (length ms div lim) lim
     @ (if length ms mod lim = 0 then [] else [length ms mod lim])"
  using chunk_loop_sizes [of "[]" lim ms] assms by (simp add: chunkPushNotifications_def)

lemma chunk_count:
  assumes "0 < lim"
  shows "length (chunkPushNotifications lim ms) = (length ms + lim - 1) div lim"
proof -
  have "length (chunkPushNotifications lim ms)
          = length (map length (chunkPushNotifications lim ms))"
    by simp
  also have "\<dots> = length ms div lim + (if length ms mod lim = 0 then 0 else 1)"
    unfolding chunk_sizes [OF assms] by simp
  finally show ?thesis using ceil_div [OF assms, of "length ms"] by simp
qed

lemma chunk_bound:
  assumes "0 < lim"
  shows "list_all (\<lambda>c. length c \<le> lim) (chunkPushNotifications lim ms)"
proof -
  have "list_all (\<lambda>n. n \<le> lim) (map length (chunkPushNotifications lim ms))"
    unfolding chunk_sizes [OF assms] using assms by (simp add: list_all_iff less_imp_le)
  then show ?thesis by (simp add: list_all_iff)
qed

section \<open>Counting: tickets and batches that threw\<close>

lemma raised_chunks_Cons:
  "raised_chunks tr k (c # cs) =
     (case tr k c of Inl e \<Rightarrow> [c] | Inr ts \<Rightarrow> []) @ raised_chunks tr (Suc k) cs"
  by (simp add: raised_chunks_def split: sum.splits)

lemma answered_plus_raised:
  "one_ticket_per_message tr k chunks \<Longrightarrow>
   length (answers tr k chunks) + sum_list (map length (raised_chunks tr k chunks))
     = sum_list (map length chunks)"
proof (induction chunks arbitrary: k)
  case Nil
  show ?case by (simp add: answers_def raised_chunks_def)
next
  case (Cons c cs)
  then have "length (answers tr (Suc k) cs)
               + sum_list (map length (raised_chunks tr (Suc k) cs))
             = sum_list (map length cs)"
    by simp
  with Cons.prems show ?case
    by (cases "tr k c") (simp_all add: answers_Cons raised_chunks_Cons)
qed

lemma length_filter_ok:
  "length (filter (\<lambda>t. status t = ok) ts) + length (filter (\<lambda>t. status t \<noteq> ok) ts)
     = length ts"
  by (rule sum_length_filter_compl)

lemma enumerate_nth:
  "(i, c) \<in> set (enumerate k cs) \<Longrightarrow> k \<le> i \<and> i - k < length cs \<and> c = cs ! (i - k)"
  by (auto simp: in_set_enumerate_eq)

lemma sample_token_a: "expoPushTokenShape ''ExponentPushToken[a]''"
  by (simp add: expoPushTokenShape_def)

section \<open>The count identities (C1)\<close>

text \<open>
  The count identities as C1 words them, with the result's \<open>total\<close> read as the number
  of validated recipients, do not hold. For the one malformed token \<open>not-a-token\<close> nothing
  is submitted, yet \<open>total\<close> is 1 while no recipient passed validation, and
  \<open>success + failed\<close> is 0, not \<open>total\<close>. For one well-formed token whose only batch the
  transport fails to deliver, one recipient was validated and \<open>success + failed\<close> is 0.
\<close>

theorem C1_counterexample:
  "sendPushNotifications (scripted_expo 100 []) [''not-a-token''] ''Hello'' ''World'' [] =
     ([], Inr \<lparr>success = 0, failed = 0, total = 1, invalidTokens = [], tickets = []\<rparr>)
   \<and> length (filter (isExpoPushToken (scripted_expo 100 [])) [''not-a-token'']) = 0
   \<and> sendPushNotifications (scripted_expo 100 []) [''ExponentPushToken[a]'']
        ''Hello'' ''World'' [] =
     ([Submit [hello ''ExponentPushToken[a]'']],
      Inr \<lparr>success = 0, failed = 0, total = 1, invalidTokens = [], tickets = []\<rparr>)
   \<and> length (filter (isExpoPushToken (scripted_expo 100 [])) [''ExponentPushToken[a]'']) = 1"
  by (simp add: sendPushNotifications_def chunkPushNotifications_def io_simps Let_def
        scripted_expo_def expoPushTokenShape_def hello_def js_index_def)

text \<open>
  C1, as the code has it. \<^verbatim>\<open>sendPushNotifications\<close> returns a result in which
  \<^item> \<open>total\<close> is the length of the input list, which is the number of validated tokens
    plus the number of malformed ones;
  \<^item> \<open>success + failed\<close> is the number of tickets received;
  \<^item> when every submission that returns has one ticket per message, \<open>success + failed\<close>
    plus the number of recipients in batches whose submission threw is the number of
    validated tokens.
\<close>

theorem C1_count_identities:
  "\<exists>r. snd (sendPushNotifications ex tokens ttl bdy dat) = Inr r
     \<and> total r = length tokens
     \<and> length (filter (isExpoPushToken ex) tokens)
         + length (filter (\<lambda>t. \<not> isExpoPushToken ex t) tokens) = length tokens
     \<and> success r + failed r = length (tickets r)
     \<and> (one_ticket_per_message (sendPushNotificationsAsync ex) 0
           (batches ex tokens ttl bdy dat)
         \<longrightarrow> success r + failed r
               + sum_list (map length
                   (raised_chunks (sendPushNotificationsAsync ex) 0
                      (batches ex tokens ttl bdy dat)))
             = length (filter (isExpoPushToken ex) tokens))"
proof -
  let ?tr = "sendPushNotificationsAsync ex"
  let ?cs = "batches ex tokens ttl bdy dat"
  have counted: "length (filter (\<lambda>t. status t = ok) (answers ?tr 0 ?cs))
                   + length (filter (\<lambda>t. status t \<noteq> ok) (answers ?tr 0 ?cs))
                 = length (answers ?tr 0 ?cs)"
    by (rule length_filter_ok)
  have conserved: "length (answers ?tr 0 ?cs) + sum_list (map length (raised_chunks ?tr 0 ?cs))
                     = length (filter (isExpoPushToken ex) tokens)"
    if "one_ticket_per_message ?tr 0 ?cs"
    using answered_plus_raised [OF that] by (simp add: sum_length_batches)
  show ?thesis
    using counted conserved
    by (simp add: sendPushNotifications_eq sum_length_filter_compl)
qed

text \<open>Four tokens, one of them malformed, in batches of two: the first batch gets its two
  tickets, the second one throws.\<close>

theorem C1_witness:
  "one_ticket_per_message
     (sendPushNotificationsAsync (scripted_expo 2 [Inr [ticket_ok, ticket_ok]])) 0
     (batches (scripted_expo 2 [Inr [ticket_ok, ticket_ok]])
        [''ExponentPushToken[a]'', ''not-a-token'', ''ExponentPushToken[b]'',
         ''ExponentPushToken[c]''] ''Hello'' ''World'' [])
   \<and> (\<exists>r. snd (sendPushNotifications (scripted_expo 2 [Inr [ticket_ok, ticket_ok]])
               [''ExponentPushToken[a]'', ''not-a-token'', ''ExponentPushToken[b]'',
                ''ExponentPushToken[c]''] ''Hello'' ''World'' []) = Inr r
          \<and> total r = 4 \<and> success r + failed r = 2 \<and> success r + failed r + 1 = 3)"
proof -
  let ?ex = "scripted_expo 2 [Inr [ticket_ok, ticket_ok]]"
  let ?tokens = "[''ExponentPushToken[a]'', ''not-a-token'', ''ExponentPushToken[b]'',
                  ''ExponentPushToken[c]'']"
  have b: "batches ?ex ?tokens ''Hello'' ''World'' []
             = [[hello ''ExponentPushToken[a]'', hello ''ExponentPushToken[b]''],
                [hello ''ExponentPushToken[c]'']]"
    by (simp add: batches_def chunkPushNotifications_def scripted_expo_def expoPushTokenShape_def hello_def js_index_def ticket_ok_def)
  have h: "one_ticket_per_message (sendPushNotificationsAsync ?ex) 0
             (batches ?ex ?tokens ''Hello'' ''World'' [])"
    unfolding b by (simp add: scripted_expo_def expoPushTokenShape_def hello_def js_index_def ticket_ok_def)
  have v: "length (filter (isExpoPushToken ?ex) ?tokens) = 3"
    by (simp add: scripted_expo_def expoPushTokenShape_def hello_def js_index_def ticket_ok_def)
  have r: "sum_list (map length (raised_chunks (sendPushNotificationsAsync ?ex) 0
             (batches ?ex ?tokens ''Hello'' ''World'' []))) = 1"
    unfolding b by (simp add: raised_chunks_def scripted_expo_def expoPushTokenShape_def hello_def js_index_def ticket_ok_def)
  from C1_count_identities [of ?ex ?tokens "''Hello''" "''World''" "[]"] obtain r
    where "snd (sendPushNotifications ?ex ?tokens ''Hello'' ''World'' []) = Inr r"
      and "total r = length ?tokens"
      and "one_ticket_per_message (sendPushNotificationsAsync ?ex) 0
             (batches ?ex ?tokens ''Hello'' ''World'' [])
           \<longrightarrow> success r + failed r
                 + sum_list (map length (raised_chunks (sendPushNotificationsAsync ?ex) 0
                     (batches ?ex ?tokens ''Hello'' ''World'' [])))
               = length (filter (isExpoPushToken ?ex) ?tokens)"
    by blast
  with h have "snd (sendPushNotifications ?ex ?tokens ''Hello'' ''World'' []) = Inr r"
      and "total r = length ?tokens"
      and "success r + failed r
             + sum_list (map length (raised_chunks (sendPushNotificationsAsync ?ex) 0
                 (batches ?ex ?tokens ''Hello'' ''World'' [])))
           = length (filter (isExpoPushToken ?ex) ?tokens)"
    by simp_all
  then have "snd (sendPushNotifications ?ex ?tokens ''Hello'' ''World'' []) = Inr r
      \<and> total r = 4 \<and> success r + failed r = 2 \<and> success r + failed r + 1 = 3"
    unfolding v r by simp
  with h show ?thesis by blast
qed

section \<open>Attribution of tickets to recipients (C2, C4, C5)\<close>

text \<open>
  When every token of the input is well-formed and every submission returns one ticket
  per message, the flat position of a ticket is the position of its recipient in the
  input, and the tokens reported as invalid are those of the recipients whose ticket says
  \<open>DeviceNotRegistered\<close>. The three statements after this one show what happens when
  the input holds a malformed token.
\<close>

lemma length_answers_all:
  "every_batch_answered tr k chunks
     \<Longrightarrow> length (answers tr k chunks) = sum_list (map length chunks)"
  by (induction chunks arbitrary: k) (auto simp: answers_Nil answers_Cons split: sum.splits)

lemma indexed_filter_zip:
  "k + length ts \<le> length xs \<Longrightarrow>
   map (\<lambda>(j, t). js_index xs j) (filter (\<lambda>(j, t). P t) (enumerate k ts))
     = map (\<lambda>(x, t). Some x) (filter (\<lambda>(x, t). P t) (zip (drop k xs) ts))"
proof (induction ts arbitrary: k)
  case Nil
  show ?case by simp
next
  case (Cons t ts)
  then have k: "k < length xs" by simp
  then have d: "drop k xs = xs ! k # drop (Suc k) xs" by (simp add: Cons_nth_drop_Suc)
  have "Suc k + length ts \<le> length xs" using Cons.prems by simp
  from Cons.IH [OF this] k show ?case
    unfolding d by (simp add: js_index_def)
qed

lemma attribution_when_aligned:
  assumes "filter (isExpoPushToken ex) tokens = tokens"
    and "every_batch_answered (sendPushNotificationsAsync ex) 0
           (batches ex tokens ttl bdy dat)"
  shows "\<exists>r. snd (sendPushNotifications ex tokens ttl bdy dat) = Inr r
     \<and> length (tickets r) = length tokens
     \<and> invalidTokens r =
         map (\<lambda>(token, t). Some token)
           (filter (\<lambda>(token, t). status t \<noteq> ok
                                  \<and> details t = Some (Some ''DeviceNotRegistered''))
              (zip tokens (tickets r)))"
proof -
  let ?ts = "answers (sendPushNotificationsAsync ex) 0 (batches ex tokens ttl bdy dat)"
  have len: "length ?ts = length tokens"
    using length_answers_all [OF assms(2)] sum_length_batches [of ex tokens ttl bdy dat]
      assms(1)
    by simp
  then have "0 + length ?ts \<le> length tokens" by simp
  from indexed_filter_zip [OF this,
      of "\<lambda>t. status t \<noteq> ok \<and> details t = Some (Some ''DeviceNotRegistered'')"] len
  show ?thesis
    by (simp add: sendPushNotifications_eq)
qed

text \<open>
  C2: each ticket is attributed to the recipient it was submitted for, position \<open>i\<close> of a
  batch's response to position \<open>i\<close> of the batch. The code pairs the ticket at position
  \<open>index\<close> of the flat ticket list with \<^verbatim>\<open>tokens[index]\<close> of the unfiltered input. With
  a malformed token in front, the one message submitted is for
  \<open>ExponentPushToken[a]\<close>, its ticket says \<open>DeviceNotRegistered\<close>, and the token
  reported as invalid is \<open>not-a-token\<close>, which was never submitted.
\<close>

theorem C2_misattribution:
  "sendPushNotifications (scripted_expo 100 [Inr [ticket_error ''DeviceNotRegistered'']])
       [''not-a-token'', ''ExponentPushToken[a]''] ''Hello'' ''World'' [] =
     ([Submit [hello ''ExponentPushToken[a]'']],
      Inr \<lparr>success = 0, failed = 1, total = 2, invalidTokens = [Some ''not-a-token''],
           tickets = [ticket_error ''DeviceNotRegistered'']\<rparr>)"
  by (simp add: sendPushNotifications_def chunkPushNotifications_def io_simps Let_def
        scripted_expo_def expoPushTokenShape_def hello_def js_index_def ticket_error_def)

text \<open>
  C4: a malformed address is not submitted and appears in none of \<open>success\<close>, \<open>failed\<close>
  and \<open>invalidTokens\<close>. The malformed \<open>garbage\<close> is not submitted, but it is the one
  entry of \<open>invalidTokens\<close>: the \<open>DeviceNotRegistered\<close> ticket of the first submitted
  recipient, \<open>ExponentPushToken[a]\<close>, is at position 0, and \<^verbatim>\<open>tokens[0]\<close> is \<open>garbage\<close>.
\<close>

theorem C4_malformed_reported_invalid:
  "\<not> isExpoPushToken (scripted_expo 100 [Inr [ticket_error ''DeviceNotRegistered'', ticket_ok]])
       ''garbage''
   \<and> sendPushNotifications
       (scripted_expo 100 [Inr [ticket_error ''DeviceNotRegistered'', ticket_ok]])
       [''garbage'', ''ExponentPushToken[a]'', ''ExponentPushToken[b]''] ''Hello'' ''World'' [] =
     ([Submit [hello ''ExponentPushToken[a]'', hello ''ExponentPushToken[b]'']],
      Inr \<lparr>success = 1, failed = 1, total = 3, invalidTokens = [Some ''garbage''],
           tickets = [ticket_error ''DeviceNotRegistered'', ticket_ok]\<rparr>)"
  by (simp add: sendPushNotifications_def chunkPushNotifications_def io_simps Let_def
        scripted_expo_def expoPushTokenShape_def hello_def js_index_def ticket_error_def ticket_ok_def)

text \<open>
  C5: a submitted recipient whose ticket is an error is in \<open>invalidTokens\<close> exactly when
  the error is \<open>DeviceNotRegistered\<close>. Here \<open>ExponentPushToken[a]\<close> gets
  \<open>MessageTooBig\<close> and \<open>ExponentPushToken[b]\<close> gets \<open>DeviceNotRegistered\<close>; both are
  counted in \<open>failed\<close>, and the token reported as invalid is \<open>ExponentPushToken[a]\<close>.
\<close>

theorem C5_wrong_recipient_flagged:
  "sendPushNotifications
       (scripted_expo 100
          [Inr [ticket_error ''MessageTooBig'', ticket_error ''DeviceNotRegistered'']])
       [''garbage'', ''ExponentPushToken[a]'', ''ExponentPushToken[b]''] ''Hello'' ''World'' [] =
     ([Submit [hello ''ExponentPushToken[a]'', hello ''ExponentPushToken[b]'']],
      Inr \<lparr>success = 0, failed = 2, total = 3,
           invalidTokens = [Some ''ExponentPushToken[a]''],
           tickets = [ticket_error ''MessageTooBig'', ticket_error ''DeviceNotRegistered'']\<rparr>)"
  by (simp add: sendPushNotifications_def chunkPushNotifications_def io_simps Let_def
        scripted_expo_def expoPushTokenShape_def hello_def js_index_def ticket_error_def)

section \<open>A batch whose submission throws (C3)\<close>

text \<open>
  C3 says that the recipients of a batch whose submission throws are counted as failed.
  They are not: the one recipient's only batch throws, and \<open>failed\<close> is 0.
\<close>

theorem C3_counterexample:
  "sendPushNotifications (scripted_expo 100 [Inl (Error ''network error'')])
       [''ExponentPushToken[a]''] ''Hello'' ''World'' [] =
     ([Submit [hello ''ExponentPushToken[a]'']],
      Inr \<lparr>success = 0, failed = 0, total = 1, invalidTokens = [], tickets = []\<rparr>)"
  by (simp add: sendPushNotifications_def chunkPushNotifications_def io_simps Let_def
        scripted_expo_def expoPushTokenShape_def hello_def js_index_def)

text \<open>
  C3, as the code has it. When the transport throws for batch \<open>j\<close>, the call still
  returns a result and every batch has been submitted, the later ones too; batch \<open>j\<close>
  adds no ticket, so its recipients are counted neither in \<open>success\<close> nor in \<open>failed\<close>;
  the tickets of the other batches are collected in batch order, and \<open>success\<close> and
  \<open>failed\<close> are the numbers of \<open>ok\<close> tickets and of other tickets among them.
\<close>

theorem C3_batch_isolation:
  assumes "j < length (batches ex tokens ttl bdy dat)"
    and "sendPushNotificationsAsync ex j (batches ex tokens ttl bdy dat ! j) = Inl e"
  shows "\<exists>r. sendPushNotifications ex tokens ttl bdy dat
                = (map Submit (batches ex tokens ttl bdy dat), Inr r)
     \<and> tickets r =
         concat (map (\<lambda>(i, chunk). if i = j then []
                        else (case sendPushNotificationsAsync ex i chunk of
                                Inl e' \<Rightarrow> [] | Inr ts \<Rightarrow> ts))
                   (enumerate 0 (batches ex tokens ttl bdy dat)))
     \<and> success r = length (filter (\<lambda>t. status t = ok) (tickets r))
     \<and> failed r = length (filter (\<lambda>t. status t \<noteq> ok) (tickets r))"
proof -
  let ?tr = "sendPushNotificationsAsync ex"
  let ?cs = "batches ex tokens ttl bdy dat"
  let ?f = "\<lambda>(i, chunk). (case ?tr i chunk of Inl e' \<Rightarrow> [] | Inr ts \<Rightarrow> ts)"
  let ?g = "\<lambda>(i, chunk). if i = j then []
              else (case ?tr i chunk of Inl e' \<Rightarrow> [] | Inr ts \<Rightarrow> ts)"
  have "map ?f (enumerate 0 ?cs) = map ?g (enumerate 0 ?cs)"
  proof (rule map_cong [OF refl])
    fix x assume x: "x \<in> set (enumerate 0 ?cs)"
    obtain i c where ic: "x = (i, c)" by (cases x)
    with x have "c = ?cs ! i" using enumerate_nth [of i c 0 ?cs] by simp
    with assms(2) ic show "?f x = ?g x" by simp
  qed
  then have "answers ?tr 0 ?cs = concat (map ?g (enumerate 0 ?cs))"
    by (simp only: answers_def)
  then show ?thesis
    by (simp add: sendPushNotifications_eq)
qed

text \<open>Three recipients in batches of two: the first batch throws, the second one is
  submitted all the same and its ticket is counted.\<close>

theorem C3_witness:
  "0 < length (batches (scripted_expo 2 [Inl (Error ''network error''), Inr [ticket_ok]])
         [''ExponentPushToken[a]'', ''ExponentPushToken[b]'', ''ExponentPushToken[c]'']
         ''Hello'' ''World'' [])
   \<and> sendPushNotificationsAsync
         (scripted_expo 2 [Inl (Error ''network error''), Inr [ticket_ok]]) 0
         (batches (scripted_expo 2 [Inl (Error ''network error''), Inr [ticket_ok]])
            [''ExponentPushToken[a]'', ''ExponentPushToken[b]'', ''ExponentPushToken[c]'']
            ''Hello'' ''World'' [] ! 0) = Inl (Error ''network error'')
   \<and> (\<exists>r. sendPushNotifications
              (scripted_expo 2 [Inl (Error ''network error''), Inr [ticket_ok]])
              [''ExponentPushToken[a]'', ''ExponentPushToken[b]'', ''ExponentPushToken[c]'']
              ''Hello'' ''World'' []
            = ([Submit [hello ''ExponentPushToken[a]'', hello ''ExponentPushToken[b]''],
                Submit [hello ''ExponentPushToken[c]'']], Inr r)
          \<and> tickets r = [ticket_ok] \<and> success r = 1 \<and> failed r = 0)"
proof -
  let ?ex = "scripted_expo 2 [Inl (Error ''network error''), Inr [ticket_ok]]"
  let ?tokens = "[''ExponentPushToken[a]'', ''ExponentPushToken[b]'', ''ExponentPushToken[c]'']"
  have b: "batches ?ex ?tokens ''Hello'' ''World'' []
             = [[hello ''ExponentPushToken[a]'', hello ''ExponentPushToken[b]''],
                [hello ''ExponentPushToken[c]'']]"
    by (simp add: batches_def chunkPushNotifications_def scripted_expo_def expoPushTokenShape_def hello_def js_index_def ticket_ok_def)
  have h1: "0 < length (batches ?ex ?tokens ''Hello'' ''World'' [])"
    unfolding b by simp
  have h2: "sendPushNotificationsAsync ?ex 0 (batches ?ex ?tokens ''Hello'' ''World'' [] ! 0)
              = Inl (Error ''network error'')"
    by (simp add: scripted_expo_def expoPushTokenShape_def hello_def js_index_def ticket_ok_def)
  from C3_batch_isolation [OF h1 h2] obtain r
    where "sendPushNotifications ?ex ?tokens ''Hello'' ''World'' []
             = (map Submit (batches ?ex ?tokens ''Hello'' ''World'' []), Inr r)"
      and "tickets r =
         concat (map (\<lambda>(i, chunk). if i = 0 then []
                        else (case sendPushNotificationsAsync ?ex i chunk of
                                Inl e' \<Rightarrow> [] | Inr ts \<Rightarrow> ts))
                   (enumerate 0 (batches ?ex ?tokens ''Hello'' ''World'' [])))"
      and "success r = length (filter (\<lambda>t. status t = ok) (tickets r))"
      and "failed r = length (filter (\<lambda>t. status t \<noteq> ok) (tickets r))"
    by blast
  then have "sendPushNotifications ?ex ?tokens ''Hello'' ''World'' []
            = ([Submit [hello ''ExponentPushToken[a]'', hello ''ExponentPushToken[b]''],
                Submit [hello ''ExponentPushToken[c]'']], Inr r)
          \<and> tickets r = [ticket_ok] \<and> success r = 1 \<and> failed r = 0"
    unfolding b by (simp add: scripted_expo_def expoPushTokenShape_def hello_def js_index_def ticket_ok_def)
  with h1 h2 show ?thesis by blast
qed

section \<open>No exception escapes (C6)\<close>

text \<open>
  C6: for every token list, message and behaviour of the transport, thrown batches and
  error tickets included, \<^verbatim>\<open>sendPushNotifications\<close> returns a result; it never throws.
\<close>

theorem C6_never_raises:
  "\<exists>r. snd (sendPushNotifications ex tokens ttl bdy dat) = Inr r"
  by (simp add: sendPushNotifications_eq)

section \<open>The submissions of a run (C7)\<close>

text \<open>
  C7: with a positive chunk size \<open>L\<close> and \<open>N\<close> validated recipients, the calls
  \<^verbatim>\<open>sendPushNotifications\<close> makes are exactly one submission per batch,
  \<open>\<lceil>N / L\<rceil>\<close> of them; no batch is larger than \<open>L\<close>; the batches, one after the other, are
  the validated recipients in their original order; and the batch sizes are \<open>L\<close>,
  \<open>N div L\<close> times, followed by the remainder if there is one. The statement holds for
  every \<open>N\<close>, so also for \<open>N\<close> greater than \<open>L\<close>.
\<close>

theorem C7_chunked_submission:
  assumes "0 < chunkSizeLimit ex"
  shows "fst (sendPushNotifications ex tokens ttl bdy dat)
           = map Submit (batches ex tokens ttl bdy dat)
     \<and> length (fst (sendPushNotifications ex tokens ttl bdy dat))
         = (length (filter (isExpoPushToken ex) tokens) + chunkSizeLimit ex - 1)
             div chunkSizeLimit ex
     \<and> list_all (\<lambda>chunk. length chunk \<le> chunkSizeLimit ex) (batches ex tokens ttl bdy dat)
     \<and> map to (concat (batches ex tokens ttl bdy dat)) = filter (isExpoPushToken ex) tokens
     \<and> map length (batches ex tokens ttl bdy dat)
         = replicate (length (filter (isExpoPushToken ex) tokens) div chunkSizeLimit ex)
             (chunkSizeLimit ex)
           @ (if length (filter (isExpoPushToken ex) tokens) mod chunkSizeLimit ex = 0 then []
              else [length (filter (isExpoPushToken ex) tokens) mod chunkSizeLimit ex])"
proof -
  let ?ms = "build_messages (isExpoPushToken ex) tokens ttl bdy dat"
  have n: "length ?ms = length (filter (isExpoPushToken ex) tokens)"
    by (rule length_build_messages)
  show ?thesis
    using chunk_count [OF assms, of ?ms] chunk_bound [OF assms, of ?ms]
      chunk_sizes [OF assms, of ?ms]
    unfolding n
    by (simp add: sendPushNotifications_eq batches_def concat_chunkPushNotifications
          build_messages_to)
qed

text \<open>250 recipients with chunk size 100: three submissions, of sizes 100, 100 and 50.\<close>

theorem C7_witness:
  "0 < chunkSizeLimit (scripted_expo 100 [])
   \<and> length (fst (sendPushNotifications (scripted_expo 100 [])
                    (replicate 250 ''ExponentPushToken[a]'') ''Hello'' ''World'' [])) = 3
   \<and> map length (batches (scripted_expo 100 []) (replicate 250 ''ExponentPushToken[a]'')
                    ''Hello'' ''World'' []) = [100, 100, 50]"
proof -
  have L: "chunkSizeLimit (scripted_expo 100 []) = 100"
    by (simp add: scripted_expo_def)
  have V: "filter (isExpoPushToken (scripted_expo 100 [])) (replicate 250 ''ExponentPushToken[a]'')
             = replicate 250 ''ExponentPushToken[a]''"
    using sample_token_a by (simp add: scripted_expo_def)
  have r: "replicate 2 (100::nat) = [100, 100]"
    by (simp add: numeral_2_eq_2)
  have pos: "0 < chunkSizeLimit (scripted_expo 100 [])"
    unfolding L by simp
  note inst = C7_chunked_submission [OF pos, of "replicate 250 ''ExponentPushToken[a]''"
      "''Hello''" "''World''" "[]", unfolded L V]
  from inst have "length (fst (sendPushNotifications (scripted_expo 100 [])
      (replicate 250 ''ExponentPushToken[a]'') ''Hello'' ''World'' []))
      = (length (replicate 250 ''ExponentPushToken[a]'') + 100 - 1) div 100"
    by (elim conjE)
  then have a: "length (fst (sendPushNotifications (scripted_expo 100 [])
      (replicate 250 ''ExponentPushToken[a]'') ''Hello'' ''World'' [])) = 3"
    by simp
  from inst have "map length (batches (scripted_expo 100 [])
      (replicate 250 ''ExponentPushToken[a]'') ''Hello'' ''World'' [])
      = replicate (length (replicate 250 ''ExponentPushToken[a]'') div 100) 100 @
        (if length (replicate 250 ''ExponentPushToken[a]'') mod 100 = 0 then []
         else [length (replicate 250 ''ExponentPushToken[a]'') mod 100])"
    by (elim conjE)
  then have b: "map length (batches (scripted_expo 100 [])
      (replicate 250 ''ExponentPushToken[a]'') ''Hello'' ''World'' []) = [100, 100, 50]"
    by (simp add: r)
  from pos a b show ?thesis by simp
qed

section \<open>The store helpers never throw\<close>

lemma markReminderSent_eq: "markReminderSent db b = ([MarkReminderSent b], Inr ())"
  by (cases "mark_reminder_sent db b") (simp_all add: markReminderSent_def io_simps)

lemma removeInvalidToken_eq: "removeInvalidToken db u = ([ClearPushToken u], Inr ())"
  by (cases "update_push_token_null db u") (simp_all add: removeInvalidToken_def io_simps)

lemma logNotifications_eq:
  "logNotifications db rt ps b ttl msg
     = ([InsertNotifications (notificationRecords rt ps b ttl msg)], Inr ())"
  by (cases "insert_notifications db (notificationRecords rt ps b ttl msg)")
     (simp_all add: logNotifications_def io_simps)

lemma logInvitationNotification_snd:
  "snd (logInvitationNotification db rt u g ttl msg i) = Inr ()"
  unfolding logInvitationNotification_def
  by (simp add: snd_try_catch snd_call_bind return_def split: sum.splits)

lemma notificationRecords_user_id:
  "map n_user_id (notificationRecords rt ps b ttl msg) = map user_id ps"
proof -
  have "map n_user_id (notificationRecords rt ps b ttl msg)
          = map (user_id \<circ> snd) (enumerate 0 ps)"
    by (simp add: notificationRecords_def split_def comp_def)
  also have "\<dots> = map user_id (map snd (enumerate 0 ps))"
    by (simp only: map_map)
  also have "\<dots> = map user_id ps"
    by (simp only: map_snd_enumerate)
  finally show ?thesis .
qed

lemma notificationRecords_status:
  "list_all (\<lambda>r. n_status r = ''sent'') (notificationRecords rt ps b ttl msg)"
  by (simp add: notificationRecords_def list_all_iff split_def)

text \<open>The only external calls of \<^verbatim>\<open>processTickets\<close> are token clean-ups.\<close>

lemma processTickets_events:
  "list_all (\<lambda>ev. case ev of ClearPushToken u \<Rightarrow> True | _ \<Rightarrow> False)
     (fst (processTickets db i ts ps))"
proof (induction ts arbitrary: i)
  case Nil
  show ?case by (simp add: return_def)
next
  case (Cons t ts)
  obtain es r where rest: "processTickets db (Suc i) ts ps = (es, r)"
    by (cases "processTickets db (Suc i) ts ps")
  with Cons.IH [of "Suc i"]
  have "list_all (\<lambda>ev. case ev of ClearPushToken u \<Rightarrow> True | _ \<Rightarrow> False) es"
    by simp
  with rest show ?case
    by (simp add: io_simps removeInvalidToken_eq split: option.splits)
qed

section \<open>A reminder with nobody to notify (C8)\<close>

text \<open>
  C8: when the participants query of a match answers without an error and carries no
  participants (no list at all, or an empty one), or carries participants none of whom
  has a valid push token, \<^verbatim>\<open>processMatchReminder\<close> makes exactly two external calls, the
  query and \<^verbatim>\<open>mark_reminder_sent\<close> for the match: nothing is submitted, and the call
  returns normally. (A query that reports an error, or throws, ends the call before the
  reminder is marked.)
\<close>

theorem C8_zero_recipients:
  assumes "get_match_participants db (booking_id m) = Inr res"
    and "resp_error res = None"
    and "case resp_data res of
           None \<Rightarrow> True
         | Some participants \<Rightarrow>
             filter (has_valid_token (isExpoPushToken ex)) participants = []"
  shows "processMatchReminder ex db rt m =
           ([GetMatchParticipants (booking_id m), MarkReminderSent (booking_id m)], Inr ())"
  using assms
  by (simp add: processMatchReminder_def io_simps markReminderSent_eq Let_def
        split: option.splits)

text \<open>A match whose only participant has no push token.\<close>

theorem C8_witness:
  "get_match_participants
       (quiet_store (Inr \<lparr>resp_data = Some [ben], resp_error = None\<rparr>) sample_profiles)
       (booking_id sample_match)
     = Inr \<lparr>resp_data = Some [ben], resp_error = None\<rparr>
   \<and> filter (has_valid_token (isExpoPushToken (scripted_expo 100 []))) [ben] = []
   \<and> processMatchReminder (scripted_expo 100 [])
       (quiet_store (Inr \<lparr>resp_data = Some [ben], resp_error = None\<rparr>) sample_profiles)
       plain_runtime sample_match
     = ([GetMatchParticipants ''b1'', MarkReminderSent ''b1''], Inr ())"
proof -
  let ?res = "\<lparr>resp_data = Some [ben], resp_error = None\<rparr>"
  let ?db = "quiet_store (Inr ?res) sample_profiles"
  have h1: "get_match_participants ?db (booking_id sample_match) = Inr ?res"
    by (simp add: quiet_store_def)
  have h2: "resp_error ?res = None"
    by simp
  have f: "filter (has_valid_token (isExpoPushToken (scripted_expo 100 []))) [ben] = []"
    by (simp add: has_valid_token_def ben_def)
  have h3: "case resp_data ?res of
              None \<Rightarrow> True
            | Some participants \<Rightarrow>
                filter (has_valid_token (isExpoPushToken (scripted_expo 100 []))) participants
                  = []"
    using f by simp
  have "processMatchReminder (scripted_expo 100 []) ?db plain_runtime sample_match
          = ([GetMatchParticipants ''b1'', MarkReminderSent ''b1''], Inr ())"
    using C8_zero_recipients [OF h1 h2 h3, of plain_runtime] by (simp add: sample_match_def)
  with h1 f show ?thesis by blast
qed

section \<open>Logging and marking after the submission loop (C10)\<close>

text \<open>
  C10: when the participants query of a match answers without an error and at least one
  participant has a valid push token, \<^verbatim>\<open>processMatchReminder\<close>, after the submissions of
  the chunk loop and whatever their outcome, inserts one notification row per valid
  participant, in order and each with status \<open>sent\<close>, and then calls
  \<^verbatim>\<open>mark_reminder_sent\<close> for the match. Only token clean-up calls can follow, and the
  call returns normally. This holds for every transport, so also for one that throws on
  every chunk.
\<close>

theorem C10_logged_and_marked:
  assumes "get_match_participants db (booking_id m) = Inr res"
    and "resp_error res = None"
    and "resp_data res = Some participants"
    and "filter (has_valid_token (isExpoPushToken ex)) participants = validParticipants"
    and "validParticipants \<noteq> []"
  shows "\<exists>rows cleanup.
           processMatchReminder ex db rt m =
             (GetMatchParticipants (booking_id m)
                # map Submit (chunkPushNotifications (chunkSizeLimit ex)
                                (reminderMessages rt m validParticipants))
                @ [InsertNotifications rows, MarkReminderSent (booking_id m)] @ cleanup,
              Inr ())
         \<and> map n_user_id rows = map user_id validParticipants
         \<and> list_all (\<lambda>r. n_status r = ''sent'') rows
         \<and> list_all (\<lambda>ev. case ev of ClearPushToken u \<Rightarrow> True | _ \<Rightarrow> False) cleanup"
proof -
  let ?rows = "notificationRecords rt validParticipants (booking_id m) (reminderTitle m)
                 (reminderMessage rt m)"
  let ?chunks = "chunkPushNotifications (chunkSizeLimit ex)
                   (reminderMessages rt m validParticipants)"
  let ?ts = "answers (sendPushNotificationsAsync ex) 0 ?chunks"
  obtain es r where pt: "processTickets db 0 ?ts validParticipants = (es, r)"
    by (cases "processTickets db 0 ?ts validParticipants")
  have cl: "list_all (\<lambda>ev. case ev of ClearPushToken u \<Rightarrow> True | _ \<Rightarrow> False) es"
    using processTickets_events [of db 0 ?ts validParticipants] pt by simp
  have ne: "participants \<noteq> []" using assms(4,5) by auto
  have "processMatchReminder ex db rt m =
     (GetMatchParticipants (booking_id m) # map Submit ?chunks
        @ [InsertNotifications ?rows, MarkReminderSent (booking_id m)] @ es, Inr ())"
    using assms ne pt
    by (cases r)
       (simp_all add: processMatchReminder_def io_simps markReminderSent_eq Let_def
          send_chunks_eq logNotifications_eq)
  then show ?thesis
    using notificationRecords_user_id notificationRecords_status cl by blast
qed

text \<open>Two participants, one with a valid token; the transport throws on the only chunk.
  The row is inserted and the reminder marked all the same.\<close>

theorem C10_witness:
  "get_match_participants
       (quiet_store (Inr \<lparr>resp_data = Some [anna, ben], resp_error = None\<rparr>) sample_profiles)
       (booking_id sample_match)
     = Inr \<lparr>resp_data = Some [anna, ben], resp_error = None\<rparr>
   \<and> filter (has_valid_token (isExpoPushToken (scripted_expo 100 []))) [anna, ben] = [anna]
   \<and> sendPushNotificationsAsync (scripted_expo 100 []) 0
        (reminderMessages plain_runtime sample_match [anna]) = Inl (Error ''network error'')
   \<and> (\<exists>rows cleanup.
         processMatchReminder (scripted_expo 100 [])
           (quiet_store (Inr \<lparr>resp_data = Some [anna, ben], resp_error = None\<rparr>)
              sample_profiles)
           plain_runtime sample_match
         = ([GetMatchParticipants ''b1'',
             Submit (reminderMessages plain_runtime sample_match [anna]),
             InsertNotifications rows, MarkReminderSent ''b1''] @ cleanup, Inr ())
       \<and> map n_user_id rows = [''u1'']
       \<and> list_all (\<lambda>r. n_status r = ''sent'') rows)"
proof -
  let ?res = "\<lparr>resp_data = Some [anna, ben], resp_error = None\<rparr>"
  let ?db = "quiet_store (Inr ?res) sample_profiles"
  let ?ex = "scripted_expo 100 []"
  have h1: "get_match_participants ?db (booking_id sample_match) = Inr ?res"
    by (simp add: quiet_store_def)
  have h2: "resp_error ?res = None" by simp
  have h3: "resp_data ?res = Some [anna, ben]" by simp
  have h4: "filter (has_valid_token (isExpoPushToken ?ex)) [anna, ben] = [anna]"
    by (simp add: has_valid_token_def anna_def ben_def scripted_expo_def
          expoPushTokenShape_def)
  have h5: "[anna] \<noteq> []" by simp
  have t: "sendPushNotificationsAsync ?ex 0 (reminderMessages plain_runtime sample_match [anna])
             = Inl (Error ''network error'')"
    by (simp add: scripted_expo_def js_index_def)
  have c: "chunkPushNotifications (chunkSizeLimit ?ex)
             (reminderMessages plain_runtime sample_match [anna])
           = [reminderMessages plain_runtime sample_match [anna]]"
    by (simp add: chunkPushNotifications_def reminderMessages_def scripted_expo_def)
  from C10_logged_and_marked [OF h1 h2 h3 h4 h5, of plain_runtime] obtain rows cleanup
    where "processMatchReminder ?ex ?db plain_runtime sample_match
             = (GetMatchParticipants (booking_id sample_match)
                  # map Submit (chunkPushNotifications (chunkSizeLimit ?ex)
                                  (reminderMessages plain_runtime sample_match [anna]))
                  @ [InsertNotifications rows, MarkReminderSent (booking_id sample_match)]
                  @ cleanup, Inr ())"
      and "map n_user_id rows = map user_id [anna]"
      and "list_all (\<lambda>r. n_status r = ''sent'') rows"
    by blast
  then have "processMatchReminder ?ex ?db plain_runtime sample_match
         = ([GetMatchParticipants ''b1'',
             Submit (reminderMessages plain_runtime sample_match [anna]),
             InsertNotifications rows, MarkReminderSent ''b1''] @ cleanup, Inr ())
       \<and> map n_user_id rows = [''u1'']
       \<and> list_all (\<lambda>r. n_status r = ''sent'') rows"
    unfolding c by (simp add: sample_match_def anna_def)
  then have e: "\<exists>rows cleanup.
         processMatchReminder ?ex ?db plain_runtime sample_match
         = ([GetMatchParticipants ''b1'',
             Submit (reminderMessages plain_runtime sample_match [anna]),
             InsertNotifications rows, MarkReminderSent ''b1''] @ cleanup, Inr ())
       \<and> map n_user_id rows = [''u1'']
       \<and> list_all (\<lambda>r. n_status r = ''sent'') rows"
    by (intro exI)
  from h1 h4 t e show ?thesis by (intro conjI)
qed

section \<open>The result of an invitation (C9)\<close>

lemma removeInvalidToken_snd: "snd (removeInvalidToken db u) = Inr ()"
  by (simp add: removeInvalidToken_eq)

lemma after_submission_snd:
  "snd (after_submission db rt invitationData inviterUser ts) =
     (case ts of
        [] \<Rightarrow> Inl (Error ''TypeError: ticket is undefined'')
      | ticket # rest \<Rightarrow>
          if status ticket = error
          then Inr \<lparr>inv_success = False, inv_error = Some (message ticket)\<rparr>
          else Inr \<lparr>inv_success = True, inv_error = None\<rparr>)"
  unfolding after_submission_def
  by (simp add: snd_bind_io [OF logInvitationNotification_snd]
        snd_bind_io [OF removeInvalidToken_snd] js_index_def failure_def io_simps
        split: list.splits)

lemma invitation_returns:
  "\<exists>r. snd (sendGameInvitationNotification ex db rt invitationData) = Inr r"
  unfolding sendGameInvitationNotification_def
  by (simp add: snd_try_catch failure_def return_def split: sum.splits exn.splits)

lemmas invitation_simps =
  snd_try_catch snd_call_bind after_submission_snd failure_def return_def
  lookup_succeeds_def valid_push_token_def first_ticket_fine_def

lemma invitation_failure_has_error:
  assumes "snd (sendGameInvitationNotification ex db rt invitationData) = Inr r"
    and "\<not> inv_success r"
  shows "\<exists>msg. inv_error r = Some msg"
  using assms unfolding sendGameInvitationNotification_def
  by (auto simp add: invitation_simps
      split: sum.splits option.splits list.splits exn.splits if_splits)

lemma invitation_success_no_error:
  assumes "snd (sendGameInvitationNotification ex db rt invitationData) = Inr r"
    and "inv_success r"
  shows "inv_error r = None"
  using assms unfolding sendGameInvitationNotification_def
  by (auto simp add: invitation_simps
      split: sum.splits option.splits list.splits exn.splits if_splits)

lemma invitation_success_iff:
  assumes "snd (sendGameInvitationNotification ex db rt invitationData) = Inr r"
  shows "inv_success r \<longleftrightarrow> invitation_goes_through ex db rt invitationData"
  using assms unfolding sendGameInvitationNotification_def invitation_goes_through_def
  by (auto simp add: invitation_simps
      split: sum.splits option.splits list.splits exn.splits if_splits)

text \<open>
  C9: for every invitation and every behaviour of the store and the transport,
  \<^verbatim>\<open>sendGameInvitationNotification\<close> returns an object and never throws. An object with
  \<open>success: false\<close> carries an error string, \<open>{success: true}\<close> carries none, and
  \<open>success\<close> is true exactly when the lookup of the target user succeeds, the user has a
  push token that is a valid Expo push token, the lookup of the inviter succeeds, and the
  transport returns with a first ticket whose status is not \<open>error\<close>.
\<close>

theorem C9_invitation_result:
  "\<exists>r. snd (sendGameInvitationNotification ex db rt invitationData) = Inr r
      \<and> (if inv_success r then inv_error r = None else (\<exists>msg. inv_error r = Some msg))
      \<and> (inv_success r \<longleftrightarrow> invitation_goes_through ex db rt invitationData)"
proof -
  obtain r where r: "snd (sendGameInvitationNotification ex db rt invitationData) = Inr r"
    using invitation_returns by blast
  show ?thesis
    using r invitation_failure_has_error [OF r] invitation_success_no_error [OF r]
      invitation_success_iff [OF r]
    by (cases "inv_success r") simp_all
qed

text \<open>Both lookups succeed and the ticket is fine: the invitation succeeds. With a
  transport that throws it fails, with the exception's message as the error.\<close>

theorem C9_witness:
  "invitation_goes_through (scripted_expo 100 [Inr [ticket_ok]])
       (quiet_store (Inl (Error ''unused'')) sample_profiles) plain_runtime sample_invitation
   \<and> (\<exists>r. snd (sendGameInvitationNotification (scripted_expo 100 [Inr [ticket_ok]])
                 (quiet_store (Inl (Error ''unused'')) sample_profiles) plain_runtime
                 sample_invitation) = Inr r
          \<and> inv_success r \<and> inv_error r = None)
   \<and> \<not> invitation_goes_through (scripted_expo 100 [])
       (quiet_store (Inl (Error ''unused'')) sample_profiles) plain_runtime sample_invitation
   \<and> (\<exists>r msg. snd (sendGameInvitationNotification (scripted_expo 100 [])
                 (quiet_store (Inl (Error ''unused'')) sample_profiles) plain_runtime
                 sample_invitation) = Inr r
          \<and> \<not> inv_success r \<and> inv_error r = Some msg)"
proof -
  let ?db = "quiet_store (Inl (Error ''unused'')) sample_profiles"
  have g: "invitation_goes_through (scripted_expo 100 [Inr [ticket_ok]]) ?db plain_runtime
             sample_invitation"
    by (simp add: invitation_goes_through_def lookup_succeeds_def valid_push_token_def
          first_ticket_fine_def quiet_store_def sample_profiles_def scripted_expo_def
          expoPushTokenShape_def js_index_def ticket_ok_def)
  have n: "\<not> invitation_goes_through (scripted_expo 100 []) ?db plain_runtime
             sample_invitation"
    by (simp add: invitation_goes_through_def lookup_succeeds_def valid_push_token_def
          first_ticket_fine_def quiet_store_def sample_profiles_def scripted_expo_def
          expoPushTokenShape_def js_index_def ticket_ok_def)
  from C9_invitation_result [of "scripted_expo 100 [Inr [ticket_ok]]" ?db plain_runtime
      sample_invitation] g
  have a: "\<exists>r. snd (sendGameInvitationNotification (scripted_expo 100 [Inr [ticket_ok]])
                 ?db plain_runtime sample_invitation) = Inr r
          \<and> inv_success r \<and> inv_error r = None"
    by auto
  from C9_invitation_result [of "scripted_expo 100 []" ?db plain_runtime sample_invitation] n
  have b: "\<exists>r msg. snd (sendGameInvitationNotification (scripted_expo 100 [])
                 ?db plain_runtime sample_invitation) = Inr r
          \<and> \<not> inv_success r \<and> inv_error r = Some msg"
    by auto
  from g a n b show ?thesis by blast
qed

end
